theory Spec2Isabelle
  imports Main
begin

section \<open>The development server of server.py\<close>

text \<open>
  The program is a start-up script around Python's static file server: it reads
  the command line, checks that the project files are present, binds a listening
  socket, prints a banner, opens a browser and serves until it is interrupted.
  Its request handler adds three CORS headers to every header block and answers
  OPTIONS itself.

  Everything the script does to the outside world is recorded as an event in a
  trace; everything the outside world decides (which paths exist, whether the
  port can be bound, how the accept loop ends) is read from an environment.
\<close>

subsection \<open>Text\<close>

text \<open>
  Strings are byte strings; the symbols of the messages that are not ASCII
  are written as their UTF-8 encoding.
\<close>

definition bullet :: string where
  "bullet = [CHR 0xE2, CHR 0x80, CHR 0xA2]"

definition warning_sign :: string where
  "warning_sign = [CHR 0xE2, CHR 0x9A, CHR 0xA0, CHR 0xEF, CHR 0xB8, CHR 0x8F]"

definition cross_mark :: string where
  "cross_mark = [CHR 0xE2, CHR 0x9D, CHR 0x8C]"

definition globe :: string where
  "globe = [CHR 0xF0, CHR 0x9F, CHR 0x8C, CHR 0x90]"

definition waving_hand :: string where
  "waving_hand = [CHR 0xF0, CHR 0x9F, CHR 0x91, CHR 0x8B]"

definition light_bulb :: string where
  "light_bulb = [CHR 0xF0, CHR 0x9F, CHR 0x92, CHR 0xA1]"

definition file_folder :: string where
  "file_folder = [CHR 0xF0, CHR 0x9F, CHR 0x93, CHR 0x81]"

definition round_pushpin :: string where
  "round_pushpin = [CHR 0xF0, CHR 0x9F, CHR 0x93, CHR 0x8D]"

definition memo :: string where
  "memo = [CHR 0xF0, CHR 0x9F, CHR 0x93, CHR 0x9D]"

definition cycle_arrows :: string where
  "cycle_arrows = [CHR 0xF0, CHR 0x9F, CHR 0x94, CHR 0x84]"

definition link_symbol :: string where
  "link_symbol = [CHR 0xF0, CHR 0x9F, CHR 0x94, CHR 0x97]"

definition wrench :: string where
  "wrench = [CHR 0xF0, CHR 0x9F, CHR 0x94, CHR 0xA7]"

definition rocket :: string where
  "rocket = [CHR 0xF0, CHR 0x9F, CHR 0x9A, CHR 0x80]"

definition rotating_light :: string where
  "rotating_light = [CHR 0xF0, CHR 0x9F, CHR 0x9A, CHR 0xA8]"

definition stop_sign :: string where
  "stop_sign = [CHR 0xF0, CHR 0x9F, CHR 0x9B, CHR 0x91]"

definition newline :: string where
  "newline = [CHR 0x0A]"

text \<open>\<open>str(n)\<close> for an integer: its decimal digits, with a minus sign when negative.\<close>

definition digit_char :: "nat \<Rightarrow> char" where
  "digit_char d = ''0123456789'' ! (d mod 10)"

function str_nat :: "nat \<Rightarrow> string" where
  "str_nat n = (if n < 10 then [digit_char n] else str_nat (n div 10) @ [digit_char n])"
  by pat_completeness auto
termination
  by (relation "measure id") auto

definition str_int :: "int \<Rightarrow> string" where
  "str_int i = (if i < 0 then CHR ''-'' # str_nat (nat (- i)) else str_nat (nat i))"

text \<open>
  \<open>int(s)\<close> for a string: surrounding white space (space, tab, line feed,
  vertical tab, form feed, carriage return) is dropped, then an optional sign
  and decimal digits are read, where single underscores may separate digits.
  Anything else raises ValueError, the value \<open>None\<close> here. The model reads ASCII
  text; digits of other scripts and the interpreter's limit on the number of
  digits are left out.
\<close>

definition is_space :: "char \<Rightarrow> bool" where
  "is_space c = (c \<in> set [CHR 0x09, CHR 0x0A, CHR 0x0B, CHR 0x0C, CHR 0x0D, CHR 0x20])"

definition strip :: "string \<Rightarrow> string" where
  "strip s = rev (dropWhile is_space (rev (dropWhile is_space s)))"

definition digit_value :: "char \<Rightarrow> nat option" where
  "digit_value c = map_of (zip ''0123456789'' [0, 1, 2, 3, 4, 5, 6, 7, 8, 9]) c"

fun read_digits :: "nat \<Rightarrow> string \<Rightarrow> nat option" where
  "read_digits acc [] = Some acc"
| "read_digits acc [c] =
     (case digit_value c of Some d \<Rightarrow> Some (10 * acc + d) | None \<Rightarrow> None)"
| "read_digits acc (c # c' # cs) =
     (if c = CHR ''_'' then
        (case digit_value c' of
           Some d \<Rightarrow> read_digits (10 * acc + d) cs
         | None \<Rightarrow> None)
      else
        (case digit_value c of
           Some d \<Rightarrow> read_digits (10 * acc + d) (c' # cs)
         | None \<Rightarrow> None))"

definition read_unsigned :: "string \<Rightarrow> nat option" where
  "read_unsigned s =
     (case s of
        [] \<Rightarrow> None
      | c # cs \<Rightarrow> (case digit_value c of Some d \<Rightarrow> read_digits d cs | None \<Rightarrow> None))"

definition py_int :: "string \<Rightarrow> int option" where
  "py_int s =
     (case strip s of
        [] \<Rightarrow> None
      | c # cs \<Rightarrow>
          if c = CHR ''-'' then map_option (\<lambda>n. - int n) (read_unsigned cs)
          else if c = CHR ''+'' then map_option int (read_unsigned cs)
          else map_option int (read_unsigned (c # cs)))"

subsection \<open>The environment and the trace\<close>

text \<open>
  \<open>os.path.exists\<close> is true of a path that names a regular file or a directory,
  so the environment records for every path what kind of node it names, if any.
\<close>

datatype node = RegularFile | Directory

text \<open>
  The exceptions the script distinguishes, each with the text \<open>str(e)\<close> where it
  is printed: KeyboardInterrupt, OSError with its \<open>errno\<close> (which may be unset),
  any other subclass of Exception, and any other BaseException.
\<close>

datatype exn =
    KeyboardInterrupt
  | OSError "int option" string
  | Exception string
  | BaseException string

record env =
  argv :: "string list"
  platform :: string
  files :: "string \<Rightarrow> node option"
  getcwd :: string
  tcp_server :: "string \<Rightarrow> int \<Rightarrow> exn option"
  webbrowser_open :: "string \<Rightarrow> exn option"
  serve_forever :: "exn option"

text \<open>
  \<open>tcp_server env host port\<close> is the outcome of constructing
  \<open>socketserver.TCPServer((host, port), ...)\<close>, which creates, binds and activates
  the listening socket: \<open>None\<close> when it succeeds, the exception otherwise.
  \<open>webbrowser_open\<close> is the outcome of \<open>webbrowser.open\<close> in the same way.
  \<open>serve_forever env\<close> is the exception that ends the accept loop, or \<open>None\<close>
  when the loop is never left.
\<close>

datatype event =
    Print string
  | TCPServer string int
  | WebbrowserOpen string
  | ServeForever
  | ServerClose

text \<open>
  How a run ends: \<open>sys.exit(n)\<close>, an exception nobody catches, or not at all
  (the process stays in the accept loop).
\<close>

datatype status = Exit int | Uncaught exn | Serving

text \<open>
  The value of \<open>errno.EADDRINUSE\<close>, the error number of a bind to an address
  that is already in use, on the platforms named by \<open>sys.platform\<close>.
\<close>

definition EADDRINUSE :: "string \<Rightarrow> int option" where
  "EADDRINUSE p = map_of [(''darwin'', 48), (''linux'', 98), (''win32'', 10048)] p"

definition address_in_use :: "env \<Rightarrow> exn \<Rightarrow> bool" where
  "address_in_use env e =
     (case e of
        OSError (Some n) msg \<Rightarrow> EADDRINUSE (platform env) = Some n
      | _ \<Rightarrow> False)"

subsection \<open>Configuration\<close>

definition default_PORT :: int where
  "default_PORT = 8000"

definition HOST :: string where
  "HOST = ''localhost''"

definition base_url :: "int \<Rightarrow> string" where
  "base_url PORT = ''http://'' @ HOST @ '':'' @ str_int PORT"

subsection \<open>check_files\<close>

definition required_files :: "string list" where
  "required_files = [''index.html'']"

definition optional_files :: "string list" where
  "optional_files = [''js/order-manager.js'', ''quick-order-test.html'', ''test-order-saving.html'']"

definition os_path_exists :: "env \<Rightarrow> string \<Rightarrow> bool" where
  "os_path_exists env p = (files env p \<noteq> None)"

definition file_line :: "string \<Rightarrow> event" where
  "file_line file = Print (''   '' @ bullet @ '' '' @ file)"

text \<open>The two loops collect the missing files in list order. The result is what was
  printed and the value returned.\<close>

definition check_files :: "env \<Rightarrow> event list \<times> bool" where
  "check_files env =
     (let missing_required = filter (\<lambda>file. \<not> os_path_exists env file) required_files;
          missing_optional = filter (\<lambda>file. \<not> os_path_exists env file) optional_files
      in if missing_required \<noteq> [] then
           ([Print (cross_mark @ '' Error: Required files are missing:'')]
              @ map file_line missing_required
              @ [Print (newline @ light_bulb
                   @ '' Make sure you're running this from the project root directory'')],
            False)
         else if missing_optional \<noteq> [] then
           ([Print (warning_sign
                @ ''  Note: Some optional files are missing (server will still start):'')]
              @ map file_line missing_optional
              @ [Print []],
            True)
         else ([], True))"

subsection \<open>start_server\<close>

definition rule_line :: string where
  "rule_line = replicate 60 CHR ''=''"

definition banner :: "env \<Rightarrow> int \<Rightarrow> string list" where
  "banner env PORT =
     [rule_line,
      rocket @ '' Otomono Jerseys Development Server'',
      rule_line,
      round_pushpin @ '' Server running at: '' @ base_url PORT,
      file_folder @ '' Serving files from: '' @ getcwd env,
      rule_line,
      link_symbol @ '' Quick Links:'',
      ''   '' @ bullet @ '' Main Site: '' @ base_url PORT @ ''/index.html'',
      ''   '' @ bullet @ '' Admin Panel: '' @ base_url PORT @ ''/admin-panel.html'',
      ''   '' @ bullet @ '' '' @ rotating_light @ '' FIX PERMISSIONS: '' @ base_url PORT
        @ ''/firebase-rules-implementation.html'',
      ''   '' @ bullet @ '' Firebase Setup Guide: '' @ base_url PORT
        @ ''/firebase-setup-guide.html'',
      ''   '' @ bullet @ '' Firebase Permissions Guide: '' @ base_url PORT
        @ ''/firebase-permissions-guide.html'',
      ''   '' @ bullet @ '' Order Test: '' @ base_url PORT @ ''/quick-order-test.html'',
      ''   '' @ bullet @ '' Full Test: '' @ base_url PORT @ ''/test-order-saving.html'',
      ''   '' @ bullet @ '' OrderManager Test: '' @ base_url PORT @ ''/test-order-manager.html'',
      ''   '' @ bullet @ '' Order Diagnostic: '' @ base_url PORT @ ''/order-diagnostic.html'',
      ''   '' @ bullet @ '' Firebase Test: '' @ base_url PORT @ ''/firebase-test.html'',
      rule_line,
      light_bulb @ '' Press Ctrl+C to stop the server'',
      rule_line]"

text \<open>The inner try: a bare \<open>except\<close>, so every exception of \<open>webbrowser.open\<close>,
  KeyboardInterrupt included, only prints the warning.\<close>

definition open_browser :: "env \<Rightarrow> int \<Rightarrow> event list" where
  "open_browser env PORT =
     (let url = base_url PORT @ ''/quick-order-test.html''
      in WebbrowserOpen url #
         (case webbrowser_open env url of
            None \<Rightarrow> [Print (globe @ '' Browser opened automatically'')]
          | Some e \<Rightarrow> [Print (warning_sign @ ''  Could not open browser automatically'')]))"

text \<open>The three \<open>except\<close> clauses of the outer try, in the order of the source. An
  exception that is none of the three kinds leaves the function.\<close>

fun except_clauses :: "int \<Rightarrow> exn \<Rightarrow> event list \<times> status" where
  "except_clauses PORT KeyboardInterrupt =
     ([Print (newline @ newline @ stop_sign @ '' Server stopped by user''),
       Print (waving_hand @ '' Goodbye!'')],
      Exit 0)"
| "except_clauses PORT (OSError errno msg) =
     ((if errno = Some 48 then
         [Print (cross_mark @ '' Error: Port '' @ str_int PORT @ '' is already in use''),
          Print (light_bulb @ '' Try a different port or stop the process using port ''
                   @ str_int PORT),
          Print (wrench @ '' Alternative: python server.py --port 8001'')]
       else
         [Print (cross_mark @ '' Error starting server: '' @ msg)]),
      Exit 1)"
| "except_clauses PORT (Exception msg) =
     ([Print (cross_mark @ '' Unexpected error: '' @ msg)], Exit 1)"
| "except_clauses PORT (BaseException msg) = ([], Uncaught (BaseException msg))"

text \<open>
  The \<open>with\<close> block is entered only when the server was constructed; leaving it
  by an exception closes the server before the \<open>except\<close> clause runs.
\<close>

definition start_server :: "env \<Rightarrow> int \<Rightarrow> event list \<times> status" where
  "start_server env PORT =
     (case tcp_server env HOST PORT of
        Some e \<Rightarrow>
          (case except_clauses PORT e of (out, st) \<Rightarrow> (TCPServer HOST PORT # out, st))
      | None \<Rightarrow>
          (let body = TCPServer HOST PORT # map Print (banner env PORT)
                 @ open_browser env PORT
                 @ [Print (newline @ cycle_arrows @ '' Server started successfully!''),
                    Print (memo @ '' Check the console for any errors or requests''),
                    ServeForever]
           in case serve_forever env of
                None \<Rightarrow> (body, Serving)
              | Some e \<Rightarrow>
                  (case except_clauses PORT e of
                     (out, st) \<Rightarrow> (body @ ServerClose # out, st))))"

subsection \<open>The main block\<close>

text \<open>
  Argument parsing either ends the process (\<open>Inl\<close>) or leaves the value of the
  global \<open>PORT\<close> (\<open>Inr\<close>). \<open>argv ! 1\<close> and \<open>argv ! 2\<close> are read only behind the
  length tests of the source.
\<close>

definition parse_arguments :: "string list \<Rightarrow> event list \<times> (status + int)" where
  "parse_arguments args =
     (if length args > 1 then
        if args ! 1 = ''--port'' \<and> length args > 2 then
          (case py_int (args ! 2) of
             Some n \<Rightarrow> ([], Inr n)
           | None \<Rightarrow> ([Print (cross_mark @ '' Error: Port must be a number'')], Inl (Exit 1)))
        else if args ! 1 \<in> set [''-h'', ''--help''] then
          ([Print ''Usage: python server.py [--port PORT]'',
            Print ''  --port PORT    Use a specific port (default: 8000)'',
            Print ''  -h, --help     Show this help message''],
           Inl (Exit 0))
        else ([], Inr default_PORT)
      else ([], Inr default_PORT))"

definition main :: "env \<Rightarrow> event list \<times> status" where
  "main env =
     (case parse_arguments (argv env) of
        (out, Inl st) \<Rightarrow> (out, st)
      | (out, Inr PORT) \<Rightarrow>
          (case check_files env of
             (out', False) \<Rightarrow>
               (out @ out'
                  @ [Print (cross_mark
                       @ '' Please run this script from the project root directory'')],
                Exit 1)
           | (out', True) \<Rightarrow>
               (case start_server env PORT of (out'', st) \<Rightarrow> (out @ out' @ out'', st))))"

subsection \<open>The request handler\<close>

text \<open>
  \<open>CustomHTTPRequestHandler\<close> inherits from the library's
  \<open>SimpleHTTPRequestHandler\<close> and overrides \<open>end_headers\<close>, \<open>do_OPTIONS\<close> and
  \<open>log_message\<close>. The handler object is a record of what the methods read and
  write: the parsed request, the line buffer of the header block under
  construction, the writes to the socket (\<open>wfile\<close>) and the lines printed.
  A write of a header block is kept as the list of its lines (the bytes on the
  wire are their concatenation), a write of body bytes as such.
\<close>

datatype chunk = Head "string list" | Body string

record handler =
  command :: string
  path :: string
  requestline :: string
  request_version :: string
  responses :: "nat \<Rightarrow> string option"
  version_string :: string
  date_time_string :: string
  log_date_time_string :: string
  headers_buffer :: "string list"
  wfile :: "chunk list"
  stdout :: "string list"

text \<open>
  \<open>responses\<close> is the library's table of reason phrases; \<open>version_string\<close>,
  \<open>date_time_string\<close> and \<open>log_date_time_string\<close> are what the methods of these
  names return during the request.
\<close>

definition CRLF :: string where
  "CRLF = [CHR 0x0D, CHR 0x0A]"

definition protocol_version :: string where
  "protocol_version = ''HTTP/1.0''"

definition header_line :: "string \<Rightarrow> string \<Rightarrow> string" where
  "header_line keyword value = keyword @ '': '' @ value @ CRLF"

definition status_line :: "nat \<Rightarrow> string \<Rightarrow> string" where
  "status_line code message = protocol_version @ '' '' @ str_nat code @ '' '' @ message @ CRLF"

text \<open>The override of \<open>log_message\<close>; the argument is the text \<open>format % args\<close>.\<close>

definition log_message :: "string \<Rightarrow> handler \<Rightarrow> handler" where
  "log_message text h =
     h\<lparr>stdout := stdout h @ [''['' @ log_date_time_string h @ ''] '' @ text]\<rparr>"

text \<open>
  The methods of \<open>BaseHTTPRequestHandler\<close> that the overrides call. While the
  request version is HTTP/0.9 (the version on the request line, or the value the
  library starts from before it has read one) they buffer and write nothing. A
  header named Connection also sets the handler's keep-alive flag, which is not
  part of the record.
\<close>

definition log_request :: "nat \<Rightarrow> handler \<Rightarrow> handler" where
  "log_request code h =
     log_message ([CHR 0x22] @ requestline h @ [CHR 0x22] @ '' '' @ str_nat code @ '' -'') h"

definition send_response_only :: "nat \<Rightarrow> string option \<Rightarrow> handler \<Rightarrow> handler" where
  "send_response_only code message h =
     (if request_version h \<noteq> ''HTTP/0.9'' then
        (let phrase =
               (case message of
                  Some m \<Rightarrow> m
                | None \<Rightarrow> (case responses h code of Some m \<Rightarrow> m | None \<Rightarrow> []))
         in h\<lparr>headers_buffer := headers_buffer h @ [status_line code phrase]\<rparr>)
      else h)"

definition send_header :: "string \<Rightarrow> string \<Rightarrow> handler \<Rightarrow> handler" where
  "send_header keyword value h =
     (if request_version h \<noteq> ''HTTP/0.9'' then
        h\<lparr>headers_buffer := headers_buffer h @ [header_line keyword value]\<rparr>
      else h)"

definition send_response :: "nat \<Rightarrow> string option \<Rightarrow> handler \<Rightarrow> handler" where
  "send_response code message h =
     send_header ''Date'' (date_time_string h)
       (send_header ''Server'' (version_string h)
          (send_response_only code message (log_request code h)))"

definition flush_headers :: "handler \<Rightarrow> handler" where
  "flush_headers h = h\<lparr>wfile := wfile h @ [Head (headers_buffer h)], headers_buffer := []\<rparr>"

definition super_end_headers :: "handler \<Rightarrow> handler" where
  "super_end_headers h =
     (if request_version h \<noteq> ''HTTP/0.9'' then
        flush_headers (h\<lparr>headers_buffer := headers_buffer h @ [CRLF]\<rparr>)
      else h)"

text \<open>The two overrides of the source.\<close>

definition end_headers :: "handler \<Rightarrow> handler" where
  "end_headers h =
     super_end_headers
       (send_header ''Access-Control-Allow-Headers'' ''Content-Type''
          (send_header ''Access-Control-Allow-Methods'' ''GET, POST, OPTIONS''
             (send_header ''Access-Control-Allow-Origin'' ''*'' h)))"

definition do_OPTIONS :: "handler \<Rightarrow> handler" where
  "do_OPTIONS h = end_headers (send_response 200 None h)"

text \<open>
  The request methods the class inherits (\<open>do_GET\<close> and \<open>do_HEAD\<close>, with
  \<open>send_error\<close> below them) are library code. They act on the handler only through
  its methods, so one run of them is the list of the calls it makes; a call of
  \<open>end_headers\<close> reaches the override.
\<close>

datatype call =
    Send_response nat "string option"
  | Send_header string string
  | End_headers
  | Wfile_write string
  | Log_message string

fun run_call :: "call \<Rightarrow> handler \<Rightarrow> handler" where
  "run_call (Send_response code message) h = send_response code message h"
| "run_call (Send_header keyword value) h = send_header keyword value h"
| "run_call End_headers h = end_headers h"
| "run_call (Wfile_write bytes) h = h\<lparr>wfile := wfile h @ [Body bytes]\<rparr>"
| "run_call (Log_message text) h = log_message text h"

definition run_calls :: "call list \<Rightarrow> handler \<Rightarrow> handler" where
  "run_calls calls h = fold run_call calls h"

text \<open>
  The library's dispatch on the request method: the method \<open>do_OPTIONS\<close> is the
  one of the source; for every other command the inherited code runs, which may
  read the files. \<open>inherited\<close> gives the calls that code makes for a file system
  and a request.
\<close>

definition handle_one_request ::
  "((string \<Rightarrow> node option) \<Rightarrow> handler \<Rightarrow> call list) \<Rightarrow> (string \<Rightarrow> node option)
     \<Rightarrow> handler \<Rightarrow> handler" where
  "handle_one_request inherited fs h =
     (if command h = ''OPTIONS'' then do_OPTIONS h else run_calls (inherited fs h) h)"

text \<open>The three header lines of the override, as they stand in the buffer.\<close>

definition cors_headers :: "string list" where
  "cors_headers =
     [header_line ''Access-Control-Allow-Origin'' ''*'',
      header_line ''Access-Control-Allow-Methods'' ''GET, POST, OPTIONS'',
      header_line ''Access-Control-Allow-Headers'' ''Content-Type'']"

fun is_head :: "chunk \<Rightarrow> bool" where
  "is_head (Head ls) = True"
| "is_head (Body bytes) = False"

definition cors_block :: "string list \<Rightarrow> bool" where
  "cors_block ls =
     (length cors_headers < length ls \<and>
      drop (length ls - Suc (length cors_headers)) ls = cors_headers @ [CRLF])"

subsection \<open>Sample runs\<close>

definition project_env :: env where
  "project_env =
     \<lparr>argv = [''server.py''],
      platform = ''linux'',
      files = [''index.html'' \<mapsto> RegularFile, ''js/order-manager.js'' \<mapsto> RegularFile],
      getcwd = ''/home/dev/mv-jerseys'',
      tcp_server = (\<lambda>host port. None),
      webbrowser_open = (\<lambda>url. None),
      serve_forever = None\<rparr>"

definition empty_dir_env :: env where
  "empty_dir_env = project_env\<lparr>files := Map.empty\<rparr>"

definition help_env :: env where
  "help_env = empty_dir_env\<lparr>argv := [''server.py'', ''--help'']\<rparr>"

definition bad_port_env :: env where
  "bad_port_env = project_env\<lparr>argv := [''server.py'', ''--port'', ''abc'']\<rparr>"

definition zero_port_env :: env where
  "zero_port_env = project_env\<lparr>argv := [''server.py'', ''--port'', ''0'']\<rparr>"

definition interrupted_env :: env where
  "interrupted_env = project_env\<lparr>serve_forever := Some KeyboardInterrupt\<rparr>"

definition stray_argument_env :: env where
  "stray_argument_env = project_env\<lparr>argv := [''server.py'', ''--port'']\<rparr>"

definition index_directory_env :: env where
  "index_directory_env = project_env\<lparr>files := [''index.html'' \<mapsto> Directory]\<rparr>"

definition linux_busy_env :: env where
  "linux_busy_env =
     project_env\<lparr>tcp_server :=
       (\<lambda>host port. Some (OSError (Some 98) ''[Errno 98] Address already in use''))\<rparr>"

definition get_request :: handler where
  "get_request =
     \<lparr>command = ''GET'',
      path = ''/index.html'',
      requestline = ''GET /index.html HTTP/1.1'',
      request_version = ''HTTP/1.1'',
      responses = [200 \<mapsto> ''OK'', 404 \<mapsto> ''Not Found''],
      version_string = ''SimpleHTTP/0.6 Python/3.12.0'',
      date_time_string = ''Wed, 04 Nov 2026 10:00:00 GMT'',
      log_date_time_string = ''04/Nov/2026 10:00:00'',
      headers_buffer = [],
      wfile = [],
      stdout = []\<rparr>"


text \<open>The same two requests with the version HTTP/0.9 on the request line, which
  the library's \<open>parse_request\<close> lets through to the dispatch.\<close>

definition old_get_request :: handler where
  "old_get_request =
     get_request\<lparr>requestline := ''GET /index.html HTTP/0.9'',
       request_version := ''HTTP/0.9''\<rparr>"


text \<open>A stand-in for the inherited file serving: 200 with the length of a fixed
  body for a path that exists, 404 otherwise.\<close>

definition sample_library :: "(string \<Rightarrow> node option) \<Rightarrow> handler \<Rightarrow> call list" where
  "sample_library fs h =
     (if fs (drop 1 (path h)) = Some RegularFile then
        [Send_response 200 None,
         Send_header ''Content-type'' ''text/html'',
         Send_header ''Content-Length'' ''5'',
         End_headers,
         Wfile_write ''hello'']
      else
        [Log_message ''code 404, message File not found'',
         Send_response 404 (Some ''File not found''),
         Send_header ''Connection'' ''close'',
         End_headers])"

section \<open>Properties\<close>

subsection \<open>What each part of the start-up prints\<close>

lemma parse_arguments_prints:
  "parse_arguments args = (out, r) \<Longrightarrow> e \<in> set out \<Longrightarrow> \<exists>s. e = Print s"
  by (auto simp: parse_arguments_def split: if_splits option.splits)

lemma check_files_prints:
  "check_files env = (out, b) \<Longrightarrow> e \<in> set out \<Longrightarrow> \<exists>s. e = Print s"
  by (auto simp: check_files_def Let_def file_line_def split: if_splits)

lemma except_clauses_prints:
  "except_clauses PORT x = (out, st) \<Longrightarrow> e \<in> set out \<Longrightarrow> \<exists>s. e = Print s"
  by (cases x) (auto split: if_splits)

lemma open_browser_no_server: "TCPServer h p \<notin> set (open_browser env PORT)"
  by (auto simp: open_browser_def Let_def split: option.splits)

lemma start_server_sockets:
  "start_server env PORT = (out, st) \<Longrightarrow> TCPServer h p \<in> set out \<Longrightarrow> h = HOST \<and> p = PORT"
  by (auto simp: start_server_def Let_def open_browser_no_server
           split: option.splits prod.splits dest: except_clauses_prints)

lemma start_server_attempts:
  "TCPServer HOST PORT \<in> set (fst (start_server env PORT))"
  by (auto simp: start_server_def Let_def split: option.splits prod.splits)

lemma check_files_missing:
  assumes "f \<in> set required_files" and "\<not> os_path_exists env f"
  shows "snd (check_files env) = False" and "file_line f \<in> set (fst (check_files env))"
  using assms by (auto simp: check_files_def Let_def filter_empty_conv)

lemma check_files_present:
  assumes "\<forall>f \<in> set required_files. os_path_exists env f"
  shows "snd (check_files env) = True"
  using assms by (auto simp: check_files_def Let_def filter_empty_conv)

lemma main_sockets:
  assumes "TCPServer h p \<in> set (fst (main env))"
  shows "\<exists>out. parse_arguments (argv env) = (out, Inr p) \<and> h = HOST \<and> snd (check_files env)"
proof (cases "parse_arguments (argv env)")
  case (Pair out r)
  show ?thesis
  proof (cases r)
    case (Inl st)
    with Pair assms show ?thesis
      by (auto simp: main_def dest: parse_arguments_prints)
  next
    case (Inr PORT)
    obtain out' b where c: "check_files env = (out', b)" by (cases "check_files env")
    obtain out'' st where s: "start_server env PORT = (out'', st)"
      by (cases "start_server env PORT")
    from Pair Inr c s assms show ?thesis
      by (cases b)
         (auto simp: main_def
               dest: parse_arguments_prints check_files_prints start_server_sockets)
  qed
qed

subsection \<open>Start-up\<close>

lemmas env_defs = project_env_def empty_dir_env_def help_env_def bad_port_env_def
  zero_port_env_def interrupted_env_def stray_argument_env_def index_directory_env_def
  linux_busy_env_def

lemmas int_defs = py_int_def strip_def is_space_def read_unsigned_def digit_value_def

text \<open>
  Claim C3 says that a bind that fails because the port is in use is reported with
  the message that names the port. The \<open>except\<close> clause recognises the failure by
  the number 48, which is \<open>EADDRINUSE\<close> on macOS. On Linux the same failure has the
  number 98: the run below prints the generic message, which does not name the
  port, and exits with status 1.
\<close>

theorem port_in_use_on_linux:
  "address_in_use linux_busy_env (OSError (Some 98) ''[Errno 98] Address already in use'')
   \<and> start_server linux_busy_env 8000 =
       ([TCPServer HOST 8000,
         Print (cross_mark @ '' Error starting server: [Errno 98] Address already in use'')],
        Exit 1)"
  by (simp add: address_in_use_def EADDRINUSE_def start_server_def linux_busy_env_def
        project_env_def)

text \<open>
  What does hold of a failed bind: an OSError or another Exception always ends the
  run with status 1, and the number 48 gets the message that names the port.
\<close>

lemma bind_error_exit_status:
  assumes "tcp_server env HOST PORT = Some e"
    and "e = OSError errno msg \<or> e = Exception msg"
  shows "snd (start_server env PORT) = Exit 1"
  using assms by (auto simp: start_server_def)

lemma bind_errno_48_message:
  assumes "tcp_server env HOST PORT = Some (OSError (Some 48) msg)"
  shows "start_server env PORT =
           ([TCPServer HOST PORT,
             Print (cross_mark @ '' Error: Port '' @ str_int PORT @ '' is already in use''),
             Print (light_bulb @ '' Try a different port or stop the process using port ''
                      @ str_int PORT),
             Print (wrench @ '' Alternative: python server.py --port 8001'')],
            Exit 1)"
  using assms by (simp add: start_server_def)

text \<open>
  Claim C4, as amended. When a required file is missing, no run creates a listening
  socket; and every run that gets past argument parsing prints a line for each
  missing required file and exits with status 1.
\<close>

theorem main_missing_required:
  assumes "\<exists>f \<in> set required_files. \<not> os_path_exists env f"
  shows "(\<forall>h p. TCPServer h p \<notin> set (fst (main env))) \<and>
         (\<forall>out PORT. parse_arguments (argv env) = (out, Inr PORT) \<longrightarrow>
            snd (main env) = Exit 1 \<and>
            (\<forall>f \<in> set required_files.
               \<not> os_path_exists env f \<longrightarrow> file_line f \<in> set (fst (main env))))"
proof -
  from assms have b: "snd (check_files env) = False"
    by (auto dest: check_files_missing(1))
  have "TCPServer h p \<notin> set (fst (main env))" for h p
    using main_sockets [of h p env] b by auto
  moreover have "snd (main env) = Exit 1 \<and>
      (\<forall>f \<in> set required_files.
         \<not> os_path_exists env f \<longrightarrow> file_line f \<in> set (fst (main env)))"
    if p: "parse_arguments (argv env) = (out, Inr PORT)" for out PORT
  proof -
    obtain out' where c: "check_files env = (out', False)"
      using b by (cases "check_files env") auto
    have "file_line f \<in> set out'" if "f \<in> set required_files" "\<not> os_path_exists env f" for f
      using check_files_missing(2) [OF that] c by simp
    with p c show ?thesis by (auto simp: main_def)
  qed
  ultimately show ?thesis by blast
qed

text \<open>
  The run in an empty directory with no arguments.
\<close>

theorem main_missing_required_witness:
  "(\<exists>f \<in> set required_files. \<not> os_path_exists empty_dir_env f) \<and>
   parse_arguments (argv empty_dir_env) = ([], Inr 8000) \<and>
   snd (main empty_dir_env) = Exit 1 \<and>
   file_line ''index.html'' \<in> set (fst (main empty_dir_env)) \<and>
   TCPServer HOST 8000 \<notin> set (fst (main empty_dir_env))"
proof -
  have a: "\<exists>f \<in> set required_files. \<not> os_path_exists empty_dir_env f"
    by (simp add: required_files_def os_path_exists_def env_defs)
  have p: "parse_arguments (argv empty_dir_env) = ([], Inr 8000)"
    by (simp add: parse_arguments_def default_PORT_def env_defs)
  have i: "''index.html'' \<in> set required_files" "\<not> os_path_exists empty_dir_env ''index.html''"
    by (simp_all add: required_files_def os_path_exists_def env_defs)
  from main_missing_required [OF a] a p i show ?thesis by blast
qed

text \<open>
  Claim C4 as stated fails for a run that asks for help in a directory without
  index.html: argument parsing ends the process first, with the usage text and
  status 0, and no file is reported.
\<close>

theorem missing_index_with_help_counterexample:
  "\<not> os_path_exists help_env ''index.html'' \<and>
   main help_env =
     ([Print ''Usage: python server.py [--port PORT]'',
       Print ''  --port PORT    Use a specific port (default: 8000)'',
       Print ''  -h, --help     Show this help message''],
      Exit 0)"
  by (simp add: os_path_exists_def main_def parse_arguments_def env_defs)

text \<open>
  \<open>int\<close> does not take the separator characters 0x1C to 0x1F for white space.
\<close>

lemma separator_is_not_space:
  "py_int (CHR 0x1C # ''8080'') = None" and "py_int (''8080'' @ [CHR 0x1F]) = None"
  by (simp_all add: int_defs)

text \<open>
  Claim C6. When the value after \<open>--port\<close> does not read as an integer, the whole run
  is one printed error message and exit status 1: no socket is created.
\<close>

theorem main_bad_port:
  assumes "length (argv env) > 2" and "argv env ! 1 = ''--port''"
    and "py_int (argv env ! 2) = None"
  shows "main env = ([Print (cross_mark @ '' Error: Port must be a number'')], Exit 1)"
  using assms by (simp add: main_def parse_arguments_def)

text \<open>
  The run with \<open>--port abc\<close>.
\<close>

theorem main_bad_port_witness:
  "length (argv bad_port_env) > 2 \<and> argv bad_port_env ! 1 = ''--port'' \<and>
   argv bad_port_env ! 2 = ''abc'' \<and> py_int ''abc'' = None \<and>
   main bad_port_env = ([Print (cross_mark @ '' Error: Port must be a number'')], Exit 1)"
proof -
  have a: "length (argv bad_port_env) > 2" and b: "argv bad_port_env ! 1 = ''--port''"
    and c: "argv bad_port_env ! 2 = ''abc''"
    by (simp_all add: env_defs)
  have d: "py_int ''abc'' = None" by (simp add: int_defs)
  from d c have e: "py_int (argv bad_port_env ! 2) = None" by simp
  from main_bad_port [OF a b e] a b c d show ?thesis by simp
qed



text \<open>
  Claim C7, as amended. The port of every listening socket the run creates is an
  integer that is either the default 8000 or what \<open>int\<close> read from the value after
  \<open>--port\<close>. Nothing checks its sign.
\<close>

theorem listening_port_origin:
  assumes "TCPServer h p \<in> set (fst (main env))"
  shows "h = HOST \<and>
         (p = default_PORT \<or>
          (length (argv env) > 2 \<and> argv env ! 1 = ''--port'' \<and>
           py_int (argv env ! 2) = Some p))"
proof -
  from main_sockets [OF assms] obtain out
    where "parse_arguments (argv env) = (out, Inr p)" and "h = HOST" by blast
  then show ?thesis
    by (auto simp: parse_arguments_def split: if_splits option.splits)
qed

text \<open>
  The run with no arguments listens on 8000.
\<close>

theorem listening_port_origin_witness:
  "TCPServer HOST 8000 \<in> set (fst (main project_env)) \<and>
   (8000 = default_PORT \<or>
    (length (argv project_env) > 2 \<and> argv project_env ! 1 = ''--port'' \<and>
     py_int (argv project_env ! 2) = Some 8000))"
proof -
  have p: "parse_arguments (argv project_env) = ([], Inr 8000)"
    by (simp add: parse_arguments_def default_PORT_def env_defs)
  have c: "snd (check_files project_env) = True"
    by (simp add: check_files_def required_files_def optional_files_def
          os_path_exists_def env_defs)
  have a: "TCPServer HOST 8000 \<in> set (fst (main project_env))"
    using p c start_server_attempts [of 8000 project_env]
    by (auto simp: main_def split: prod.splits bool.splits)
  from listening_port_origin [OF a] a show ?thesis by simp
qed

text \<open>
  Claim C7 as stated fails for \<open>--port 0\<close>: the value is accepted, the server is
  created for port 0 and the run enters the accept loop.
\<close>

theorem port_zero_counterexample:
  "parse_arguments (argv zero_port_env) = ([], Inr 0) \<and>
   TCPServer HOST 0 \<in> set (fst (main zero_port_env)) \<and>
   snd (main zero_port_env) = Serving"
proof -
  have p: "parse_arguments (argv zero_port_env) = ([], Inr 0)"
    by (simp add: parse_arguments_def int_defs env_defs)
  have c: "snd (check_files zero_port_env) = True"
    by (simp add: check_files_def required_files_def optional_files_def
          os_path_exists_def env_defs)
  have s: "snd (start_server zero_port_env 0) = Serving"
    by (simp add: start_server_def Let_def env_defs)
  from p c s start_server_attempts [of 0 zero_port_env] show ?thesis
    by (auto simp: main_def split: prod.splits bool.splits)
qed

text \<open>A negative value passes argument parsing as well.\<close>

lemma negative_port_parses:
  "parse_arguments [''server.py'', ''--port'', ''-1''] = ([], Inr (- 1))"
  by (simp add: parse_arguments_def int_defs)

lemma start_server_argv: "start_server (env\<lparr>argv := args\<rparr>) PORT = start_server env PORT"
proof -
  have "banner (env\<lparr>argv := args\<rparr>) PORT = banner env PORT"
    by (simp add: banner_def)
  moreover have "open_browser (env\<lparr>argv := args\<rparr>) PORT = open_browser env PORT"
    by (simp add: open_browser_def)
  ultimately show ?thesis
    by (simp add: start_server_def Let_def split: option.splits)
qed

text \<open>
  Claim C8. When the server has started and the accept loop is ended by a
  KeyboardInterrupt, the run ends with: the loop left, the server closed, the two
  farewell lines printed, exit status 0.
\<close>

theorem interrupt_exits_cleanly:
  assumes "parse_arguments (argv env) = (out, Inr PORT)"
    and "snd (check_files env) = True"
    and "tcp_server env HOST PORT = None"
    and "serve_forever env = Some KeyboardInterrupt"
  shows "snd (main env) = Exit 0 \<and>
         (\<exists>before. fst (main env) =
            before @ [ServeForever, ServerClose,
                      Print (newline @ newline @ stop_sign @ '' Server stopped by user''),
                      Print (waving_hand @ '' Goodbye!'')])"
proof -
  obtain out' where c: "check_files env = (out', True)"
    using assms(2) by (cases "check_files env") auto
  let ?tail = "[ServeForever, ServerClose,
                Print (newline @ newline @ stop_sign @ '' Server stopped by user''),
                Print (waving_hand @ '' Goodbye!'')]"
  let ?head = "TCPServer HOST PORT # map Print (banner env PORT) @ open_browser env PORT
      @ [Print (newline @ cycle_arrows @ '' Server started successfully!''),
         Print (memo @ '' Check the console for any errors or requests'')]"
  have s: "start_server env PORT = (?head @ ?tail, Exit 0)"
    using assms(3,4) by (simp add: start_server_def Let_def)
  have "main env = ((out @ out' @ ?head) @ ?tail, Exit 0)"
    using assms(1) c s by (simp add: main_def)
  then show ?thesis by (metis fst_conv snd_conv)
qed

text \<open>
  A run with no arguments that is interrupted in the accept loop.
\<close>

theorem interrupt_exits_cleanly_witness:
  "parse_arguments (argv interrupted_env) = ([], Inr 8000) \<and>
   snd (check_files interrupted_env) = True \<and>
   tcp_server interrupted_env HOST 8000 = None \<and>
   serve_forever interrupted_env = Some KeyboardInterrupt \<and>
   snd (main interrupted_env) = Exit 0 \<and>
   (\<exists>before. fst (main interrupted_env) =
      before @ [ServeForever, ServerClose,
                Print (newline @ newline @ stop_sign @ '' Server stopped by user''),
                Print (waving_hand @ '' Goodbye!'')])"
proof -
  have p: "parse_arguments (argv interrupted_env) = ([], Inr 8000)"
    by (simp add: parse_arguments_def default_PORT_def env_defs)
  have c: "snd (check_files interrupted_env) = True"
    by (simp add: check_files_def required_files_def optional_files_def
          os_path_exists_def env_defs)
  have t: "tcp_server interrupted_env HOST 8000 = None"
    and f: "serve_forever interrupted_env = Some KeyboardInterrupt"
    by (simp_all add: env_defs)
  from interrupt_exits_cleanly [OF p c t f] p c t f show ?thesis by blast
qed

text \<open>
  Claim C9. When the first argument is not \<open>-h\<close>, not \<open>--help\<close> and not \<open>--port\<close>
  followed by a value, argument parsing prints nothing and keeps port 8000, and the
  whole run is the run without arguments.
\<close>

theorem unknown_argument_ignored:
  assumes "length (argv env) > 1"
    and "argv env ! 1 \<noteq> ''-h''" and "argv env ! 1 \<noteq> ''--help''"
    and "\<not> (argv env ! 1 = ''--port'' \<and> length (argv env) > 2)"
  shows "parse_arguments (argv env) = ([], Inr 8000) \<and>
         main env = main (env\<lparr>argv := take 1 (argv env)\<rparr>)"
proof -
  have a: "parse_arguments (argv env) = ([], Inr 8000)"
    using assms by (auto simp: parse_arguments_def default_PORT_def)
  have b: "parse_arguments (take 1 (argv env)) = ([], Inr 8000)"
    by (simp add: parse_arguments_def default_PORT_def)
  have c: "check_files (env\<lparr>argv := take 1 (argv env)\<rparr>) = check_files env"
    by (simp add: check_files_def os_path_exists_def)
  have d: "start_server (env\<lparr>argv := take 1 (argv env)\<rparr>) 8000 = start_server env 8000"
    by (simp add: start_server_argv)
  from a b c d show ?thesis by (simp add: main_def)
qed

text \<open>
  The run with \<open>--port\<close> and no value.
\<close>

theorem unknown_argument_ignored_witness:
  "length (argv stray_argument_env) > 1 \<and>
   argv stray_argument_env ! 1 = ''--port'' \<and>
   \<not> length (argv stray_argument_env) > 2 \<and>
   parse_arguments (argv stray_argument_env) = ([], Inr 8000) \<and>
   main stray_argument_env = main project_env"
proof -
  have a: "length (argv stray_argument_env) > 1"
    and b: "argv stray_argument_env ! 1 \<noteq> ''-h''"
    and c: "argv stray_argument_env ! 1 \<noteq> ''--help''"
    and d: "\<not> (argv stray_argument_env ! 1 = ''--port'' \<and> length (argv stray_argument_env) > 2)"
    and e: "argv stray_argument_env ! 1 = ''--port''"
    and f: "stray_argument_env\<lparr>argv := take 1 (argv stray_argument_env)\<rparr> = project_env"
    by (simp_all add: env_defs)
  from unknown_argument_ignored [OF a b c d] a d e f show ?thesis by simp
qed

text \<open>
  Claim C10. When index.html names a directory, \<open>check_files\<close> returns True; its
  result is the same as when every existing path names a regular file; and every
  run that gets past argument parsing goes on to create the server and ends as
  \<open>start_server\<close> ends.
\<close>

theorem directory_passes_check:
  assumes "files env ''index.html'' = Some Directory"
  shows "snd (check_files env) = True \<and>
         check_files env = check_files (env\<lparr>files := map_option (\<lambda>k. RegularFile) \<circ> files env\<rparr>) \<and>
         (\<forall>out PORT. parse_arguments (argv env) = (out, Inr PORT) \<longrightarrow>
            TCPServer HOST PORT \<in> set (fst (main env)) \<and>
            snd (main env) = snd (start_server env PORT))"
proof -
  have a: "snd (check_files env) = True"
    using assms by (intro check_files_present) (simp add: required_files_def os_path_exists_def)
  have b: "check_files env =
      check_files (env\<lparr>files := map_option (\<lambda>k. RegularFile) \<circ> files env\<rparr>)"
    by (simp add: check_files_def os_path_exists_def)
  have c: "TCPServer HOST PORT \<in> set (fst (main env)) \<and>
      snd (main env) = snd (start_server env PORT)"
    if "parse_arguments (argv env) = (out, Inr PORT)" for out PORT
    using that a start_server_attempts [of PORT env]
    by (auto simp: main_def split: prod.splits bool.splits)
  from a b c show ?thesis by blast
qed

text \<open>
  A directory that holds only a directory named index.html: the server is created
  and the run stays in the accept loop.
\<close>

theorem directory_passes_check_witness:
  "files index_directory_env ''index.html'' = Some Directory \<and>
   snd (check_files index_directory_env) = True \<and>
   parse_arguments (argv index_directory_env) = ([], Inr 8000) \<and>
   TCPServer HOST 8000 \<in> set (fst (main index_directory_env)) \<and>
   snd (main index_directory_env) = Serving"
proof -
  have a: "files index_directory_env ''index.html'' = Some Directory"
    by (simp add: env_defs)
  have p: "parse_arguments (argv index_directory_env) = ([], Inr 8000)"
    by (simp add: parse_arguments_def default_PORT_def env_defs)
  have s: "snd (start_server index_directory_env 8000) = Serving"
    by (simp add: start_server_def Let_def env_defs)
  from directory_passes_check [OF a]
  have c: "snd (check_files index_directory_env) = True"
    and m: "\<forall>out PORT. parse_arguments (argv index_directory_env) = (out, Inr PORT) \<longrightarrow>
            TCPServer HOST PORT \<in> set (fst (main index_directory_env)) \<and>
            snd (main index_directory_env) = snd (start_server index_directory_env PORT)"
    by blast+
  from m p s have "TCPServer HOST 8000 \<in> set (fst (main index_directory_env))"
    and "snd (main index_directory_env) = Serving"
    by auto
  with a p c show ?thesis by simp
qed

subsection \<open>Responses\<close>

lemma send_header_wfile: "wfile (send_header k v h) = wfile h"
  by (simp add: send_header_def)

lemma send_header_version: "request_version (send_header k v h) = request_version h"
  by (simp add: send_header_def)

lemma log_message_wfile: "wfile (log_message text h) = wfile h"
  by (simp add: log_message_def)

lemma send_response_wfile: "wfile (send_response code message h) = wfile h"
  by (simp add: send_response_def send_header_def send_response_only_def log_request_def
        log_message_def Let_def)

lemma send_response_version:
  "request_version (send_response code message h) = request_version h"
  by (simp add: send_response_def send_header_def send_response_only_def log_request_def
        log_message_def Let_def)

lemma end_headers_wfile:
  "wfile (end_headers h) =
     (if request_version h \<noteq> ''HTTP/0.9''
      then wfile h @ [Head (headers_buffer h @ cors_headers @ [CRLF])]
      else wfile h)"
  by (simp add: end_headers_def super_end_headers_def flush_headers_def send_header_def
        cors_headers_def)

lemma end_headers_version: "request_version (end_headers h) = request_version h"
  by (simp add: end_headers_def super_end_headers_def flush_headers_def send_header_def)

lemma run_call_version: "request_version (run_call c h) = request_version h"
  by (cases c)
     (simp_all add: send_response_version send_header_version end_headers_version
        log_message_def)

lemma cors_block_append: "cors_block (pre @ cors_headers @ [CRLF])"
  by (simp add: cors_block_def)

lemma cors_block_subset: "cors_block ls \<Longrightarrow> set cors_headers \<subseteq> set ls"
proof -
  assume a: "cors_block ls"
  then have "set (cors_headers @ [CRLF]) \<subseteq> set ls"
    unfolding cors_block_def by (metis set_drop_subset)
  then show ?thesis by simp
qed

text \<open>One call: what it writes, with and without a version on the request line.\<close>

lemma run_call_wfile:
  assumes "request_version h \<noteq> ''HTTP/0.9''"
  shows "\<exists>new. wfile (run_call c h) = wfile h @ new \<and>
           (\<forall>ls. Head ls \<in> set new \<longrightarrow> cors_block ls) \<and>
           length (filter is_head new) = count_list [c] End_headers"
  using assms
  by (cases c)
     (simp_all add: send_response_wfile send_header_wfile log_message_wfile
        end_headers_wfile cors_block_append)

lemma run_call_wfile_old:
  assumes "request_version h = ''HTTP/0.9''"
  shows "\<exists>new. wfile (run_call c h) = wfile h @ new \<and> filter is_head new = []"
  using assms
  by (cases c)
     (simp_all add: send_response_wfile send_header_wfile log_message_wfile
        end_headers_wfile)

lemma run_calls_wfile:
  assumes "request_version h \<noteq> ''HTTP/0.9''"
  shows "\<exists>new. wfile (run_calls cs h) = wfile h @ new \<and>
           (\<forall>ls. Head ls \<in> set new \<longrightarrow> cors_block ls) \<and>
           length (filter is_head new) = count_list cs End_headers"
  using assms
proof (induction cs arbitrary: h)
  case Nil
  then show ?case by (simp add: run_calls_def)
next
  case (Cons c cs)
  from run_call_wfile [OF Cons.prems, of c] obtain n1
    where n1: "wfile (run_call c h) = wfile h @ n1"
      "\<forall>ls. Head ls \<in> set n1 \<longrightarrow> cors_block ls"
      "length (filter is_head n1) = count_list [c] End_headers"
    by blast
  have v: "request_version (run_call c h) \<noteq> ''HTTP/0.9''"
    using Cons.prems by (simp add: run_call_version)
  from Cons.IH [OF v] obtain n2
    where n2: "wfile (run_calls cs (run_call c h)) = wfile (run_call c h) @ n2"
      "\<forall>ls. Head ls \<in> set n2 \<longrightarrow> cors_block ls"
      "length (filter is_head n2) = count_list cs End_headers"
    by blast
  have "wfile (run_calls (c # cs) h) = wfile h @ (n1 @ n2)"
    using n1(1) n2(1) by (simp add: run_calls_def)
  moreover have "\<forall>ls. Head ls \<in> set (n1 @ n2) \<longrightarrow> cors_block ls"
    using n1(2) n2(2) by auto
  moreover have "length (filter is_head (n1 @ n2)) = count_list (c # cs) End_headers"
    using n1(3) n2(3) by simp
  ultimately show ?case by blast
qed

lemma run_calls_wfile_old:
  assumes "request_version h = ''HTTP/0.9''"
  shows "\<exists>new. wfile (run_calls cs h) = wfile h @ new \<and> filter is_head new = []"
  using assms
proof (induction cs arbitrary: h)
  case Nil
  then show ?case by (simp add: run_calls_def)
next
  case (Cons c cs)
  from run_call_wfile_old [OF Cons.prems, of c] obtain n1
    where n1: "wfile (run_call c h) = wfile h @ n1" "filter is_head n1 = []"
    by blast
  have v: "request_version (run_call c h) = ''HTTP/0.9''"
    using Cons.prems by (simp add: run_call_version)
  from Cons.IH [OF v] obtain n2
    where n2: "wfile (run_calls cs (run_call c h)) = wfile (run_call c h) @ n2"
      "filter is_head n2 = []"
    by blast
  have "wfile (run_calls (c # cs) h) = wfile h @ (n1 @ n2)"
    using n1(1) n2(1) by (simp add: run_calls_def)
  moreover have "filter is_head (n1 @ n2) = []"
    using n1(2) n2(2) by simp
  ultimately show ?case by blast
qed

lemma do_OPTIONS_wfile:
  "wfile (do_OPTIONS h) =
     (if request_version h \<noteq> ''HTTP/0.9'' then
        wfile h @
          [Head (headers_buffer h @
             [status_line 200 (case responses h 200 of Some m \<Rightarrow> m | None \<Rightarrow> []),
              header_line ''Server'' (version_string h),
              header_line ''Date'' (date_time_string h)] @ cors_headers @ [CRLF])]
      else wfile h)"
  by (simp add: do_OPTIONS_def end_headers_wfile send_response_def send_header_def
        send_response_only_def log_request_def log_message_def Let_def)

text \<open>
  For a request with the version HTTP/0.9 nothing the handler writes is a header
  block, whatever the inherited code calls.
\<close>

lemma old_version_no_header:
  assumes "request_version h = ''HTTP/0.9''"
  shows "\<exists>new. wfile (handle_one_request inherited fs h) = wfile h @ new \<and>
           filter is_head new = []"
proof (cases "command h = ''OPTIONS''")
  case True
  with assms show ?thesis
    by (simp add: handle_one_request_def do_OPTIONS_wfile)
next
  case False
  with run_calls_wfile_old [OF assms, of "inherited fs h"] show ?thesis
    by (simp add: handle_one_request_def)
qed

text \<open>
  Claim C1, as amended. For a request whose version is not HTTP/0.9, whatever its
  method and path and whatever calls the inherited library code makes: every header
  block written to the socket ends with the three CORS header lines and the blank
  line, and a header block is written for the OPTIONS answer and for every call of
  \<open>end_headers\<close> the inherited code makes.
\<close>

theorem versioned_response_has_cors:
  assumes "request_version h \<noteq> ''HTTP/0.9''"
  shows "\<exists>new. wfile (handle_one_request inherited fs h) = wfile h @ new \<and>
           (\<forall>ls. Head ls \<in> set new \<longrightarrow> cors_block ls \<and> set cors_headers \<subseteq> set ls) \<and>
           length (filter is_head new) =
             (if command h = ''OPTIONS'' then 1 else count_list (inherited fs h) End_headers)"
proof (cases "command h = ''OPTIONS''")
  case True
  let ?h' = "send_response 200 None h"
  have v: "request_version ?h' \<noteq> ''HTTP/0.9''"
    using assms by (simp add: send_response_version)
  from run_call_wfile [OF v, of End_headers] obtain new
    where n: "wfile (end_headers ?h') = wfile ?h' @ new"
      "\<forall>ls. Head ls \<in> set new \<longrightarrow> cors_block ls"
      "length (filter is_head new) = 1"
    by auto
  have "wfile (handle_one_request inherited fs h) = wfile h @ new"
    using True n(1) by (simp add: handle_one_request_def do_OPTIONS_def send_response_wfile)
  moreover have "\<forall>ls. Head ls \<in> set new \<longrightarrow> cors_block ls \<and> set cors_headers \<subseteq> set ls"
    using n(2) by (auto dest: cors_block_subset)
  ultimately show ?thesis
    using True n(3) by auto
next
  case False
  with run_calls_wfile [OF assms, of "inherited fs h"] show ?thesis
    by (auto simp: handle_one_request_def dest: cors_block_subset)
qed

text \<open>
  The run that serves index.html writes one header block, and it carries the three
  headers.
\<close>

theorem versioned_response_has_cors_witness:
  "request_version get_request \<noteq> ''HTTP/0.9'' \<and>
   wfile get_request = [] \<and>
   count_list (sample_library (files project_env) get_request) End_headers = 1 \<and>
   wfile (handle_one_request sample_library (files project_env) get_request) =
     [Head ([status_line 200 ''OK'',
             header_line ''Server'' ''SimpleHTTP/0.6 Python/3.12.0'',
             header_line ''Date'' ''Wed, 04 Nov 2026 10:00:00 GMT'',
             header_line ''Content-type'' ''text/html'',
             header_line ''Content-Length'' ''5''] @ cors_headers @ [CRLF]),
      Body ''hello''] \<and>
   set cors_headers \<subseteq>
     set ([status_line 200 ''OK'',
           header_line ''Server'' ''SimpleHTTP/0.6 Python/3.12.0'',
           header_line ''Date'' ''Wed, 04 Nov 2026 10:00:00 GMT'',
           header_line ''Content-type'' ''text/html'',
           header_line ''Content-Length'' ''5''] @ cors_headers @ [CRLF])"
proof -
  let ?blk = "[status_line 200 ''OK'',
           header_line ''Server'' ''SimpleHTTP/0.6 Python/3.12.0'',
           header_line ''Date'' ''Wed, 04 Nov 2026 10:00:00 GMT'',
           header_line ''Content-type'' ''text/html'',
           header_line ''Content-Length'' ''5''] @ cors_headers @ [CRLF]"
  have v: "request_version get_request \<noteq> ''HTTP/0.9''"
    and e: "wfile get_request = []"
    by (simp_all add: get_request_def)
  have k: "count_list (sample_library (files project_env) get_request) End_headers = 1"
    by (simp add: sample_library_def get_request_def project_env_def)
  have w: "wfile (handle_one_request sample_library (files project_env) get_request) =
      [Head ?blk, Body ''hello'']"
    by (simp add: handle_one_request_def run_calls_def sample_library_def get_request_def
          project_env_def end_headers_wfile send_response_def send_header_def
          send_response_only_def log_request_def log_message_def Let_def)
  from versioned_response_has_cors [OF v, of sample_library "files project_env"]
  obtain new
    where n: "wfile (handle_one_request sample_library (files project_env) get_request)
                = wfile get_request @ new"
      and c: "\<forall>ls. Head ls \<in> set new \<longrightarrow> cors_block ls \<and> set cors_headers \<subseteq> set ls"
    by blast
  from n e w have "new = [Head ?blk, Body ''hello'']" by simp
  with c have "set cors_headers \<subseteq> set ?blk" by simp
  with v e k w show ?thesis by simp
qed

text \<open>
  Claim C1 as stated fails for a GET with the version HTTP/0.9: the library buffers
  no status line and no header for it, so the answer is the body alone. The
  request version is also HTTP/0.9 while the library answers a request line that
  has no version or that it rejects before reading one.
\<close>

theorem old_version_get_counterexample:
  "request_version old_get_request = ''HTTP/0.9'' \<and>
   command old_get_request = ''GET'' \<and>
   wfile old_get_request = [] \<and>
   wfile (handle_one_request sample_library (files project_env) old_get_request) =
     [Body ''hello'']"
  by (simp add: handle_one_request_def run_calls_def sample_library_def old_get_request_def
        get_request_def project_env_def end_headers_wfile send_response_def send_header_def
        send_response_only_def log_request_def log_message_def Let_def)




end
